theory Spec2Isabelle
  imports Main
begin

section \<open>The GitHub App installation controller\<close>

text \<open>
  A shallow embedding of \<^verbatim>\<open>packages/backend/src/controllers/githubController.ts\<close>:
  the initiation endpoint \<^verbatim>\<open>installGithubAppForOrganization\<close> and the callback
  \<^verbatim>\<open>githubOauthCallback\<close>. The session, the controller's response (status and
  headers), the exception a handler ends with and the calls it makes to its collaborators
  are explicit values.
\<close>

subsection \<open>Values of the platform\<close>

text \<open>
  The exceptions the handlers end with: the plain \<^verbatim>\<open>Error\<close>, the
  \<^verbatim>\<open>ForbiddenError\<close> of the common package, the \<^verbatim>\<open>TypeError\<close> of the
  runtime (an invalid URL, a property read on \<^verbatim>\<open>undefined\<close>), and whatever a
  collaborator rejects with.
\<close>

datatype error =
    Error string
  | ForbiddenError string
  | TypeError string
  | RequestError string

text \<open>
  An optional string parameter is \<^verbatim>\<open>undefined\<close> (\<open>None\<close>) or a string.
  \<^verbatim>\<open>!v\<close> holds of \<^verbatim>\<open>undefined\<close> and of the empty string.
\<close>

definition falsy :: "string option \<Rightarrow> bool" where
  "falsy v = (case v of None \<Rightarrow> True | Some s \<Rightarrow> s = [])"

text \<open>
  \<^verbatim>\<open>s.replace(pat, rep)\<close> with a string pattern: the first occurrence of the
  pattern is replaced, the rest of the string is kept as it is.
\<close>

fun replace :: "string \<Rightarrow> string \<Rightarrow> string \<Rightarrow> string" where
  "replace pat rep [] = (if pat = [] then rep else [])"
| "replace pat rep (c # cs) =
     (if take (length pat) (c # cs) = pat then rep @ drop (length pat) (c # cs)
      else c # replace pat rep cs)"

text \<open>The decimal digits of a natural number.\<close>

definition digit :: "nat \<Rightarrow> char" where
  "digit d = ''0123456789'' ! d"

fun digits :: "nat \<Rightarrow> string" where
  "digits n = (if n < 10 then [digit n] else digits (n div 10) @ [digit (n mod 10)])"

declare digits.simps [simp del]

subsection \<open>The URL constructor\<close>

text \<open>
  \<^verbatim>\<open>new URL(input)\<close> with no base, after the URL standard: leading and trailing C0
  controls and spaces are removed, then tabs and newlines; the input must then begin with a
  scheme (a letter, then letters, digits, \<open>+\<close>, \<open>-\<close>, \<open>.\<close>, up to a colon), and
  without one the constructor throws. What the parser does with an input that has a scheme
  (it may still fail), and the \<^verbatim>\<open>href\<close> it serialises, is the parameter
  \<open>url_href\<close>; resolving a reference against a parsed base is the parameter
  \<open>url_resolve\<close>.
\<close>

definition c0_or_space :: "char \<Rightarrow> bool" where
  "c0_or_space c = ((of_char c :: nat) \<le> 32)"

definition tab_or_newline :: "char \<Rightarrow> bool" where
  "tab_or_newline c = ((of_char c :: nat) = 9 \<or> (of_char c :: nat) = 10 \<or> (of_char c :: nat) = 13)"

definition ascii_alpha :: "char \<Rightarrow> bool" where
  "ascii_alpha c =
     (let n = (of_char c :: nat) in (65 \<le> n \<and> n \<le> 90) \<or> (97 \<le> n \<and> n \<le> 122))"

definition ascii_digit :: "char \<Rightarrow> bool" where
  "ascii_digit c = (let n = (of_char c :: nat) in 48 \<le> n \<and> n \<le> 57)"

definition url_trim :: "string \<Rightarrow> string" where
  "url_trim s =
     filter (\<lambda>c. \<not> tab_or_newline c)
       (rev (dropWhile c0_or_space (rev (dropWhile c0_or_space s))))"

fun scheme_tail :: "string \<Rightarrow> bool" where
  "scheme_tail [] = False"
| "scheme_tail (c # cs) =
     (if ascii_alpha c \<or> ascii_digit c \<or> c = CHR ''+'' \<or> c = CHR ''-'' \<or> c = CHR ''.''
      then scheme_tail cs
      else c = CHR '':'')"

definition has_scheme :: "string \<Rightarrow> bool" where
  "has_scheme s = (case s of [] \<Rightarrow> False | c # cs \<Rightarrow> ascii_alpha c \<and> scheme_tail cs)"

subsection \<open>Collaborators\<close>

text \<open>
  The authentication a code exchange returns, and an installation of the provider's list
  (\<open>inst_id\<close> is its numeric \<^verbatim>\<open>id\<close>).
\<close>

record authentication =
  token :: string
  refreshToken :: "string option"

record installation =
  inst_id :: int

text \<open>
  What the handlers call and do not define: the code exchange
  (\<^verbatim>\<open>getGithubApp().oauth.createToken\<close>), the installation list of the REST client,
  called with the bearer token, the \<^verbatim>\<open>upsertInstallation\<close> of the GitHub App
  service (\<open>None\<close> when it resolves), and the two parts of the URL parser left open
  above. Each may reject with an error. \<open>number_format\<close> is the runtime's rendering of
  a number that is not a safe integer (the shortest digits that read back as the same
  number, in exponent form from \<open>10^21\<close>), which the model leaves open.
\<close>

record platform =
  createToken :: "string \<Rightarrow> error + authentication"
  listInstallationsForAuthenticatedUser :: "string \<Rightarrow> error + installation list"
  upsertInstallation :: "string \<Rightarrow> string \<Rightarrow> string \<Rightarrow> string \<Rightarrow> error option"
  url_href :: "string \<Rightarrow> string option"
  url_resolve :: "string \<Rightarrow> string \<Rightarrow> string option"
  number_format :: "int \<Rightarrow> string"

text \<open>
  The template literal \<^verbatim>\<open>`${n}`\<close> of an integral number. A safe integer (of
  magnitude at most \<open>2^53 - 1\<close>) is written with exactly its decimal digits, with a minus
  sign when negative; any other number is written as the runtime formats it.
\<close>

definition number_to_string :: "platform \<Rightarrow> int \<Rightarrow> string" where
  "number_to_string P n =
     (if - 9007199254740992 < n \<and> n < 9007199254740992
      then (if n < 0 then CHR ''-'' # digits (nat (- n)) else digits (nat n))
      else number_format P n)"

definition new_URL_href :: "platform \<Rightarrow> string \<Rightarrow> string option" where
  "new_URL_href P input = (if has_scheme (url_trim input) then url_href P input else None)"

definition new_URL_base_href :: "platform \<Rightarrow> string \<Rightarrow> string \<Rightarrow> string option" where
  "new_URL_base_href P input base =
     (case new_URL_href P base of None \<Rightarrow> None | Some b \<Rightarrow> url_resolve P input base)"

text \<open>The calls a handler made, in order, with their arguments.\<close>

datatype call =
    CreateToken string
  | ListInstallations string
  | UpsertInstallation string string string string

subsection \<open>Session, request, configuration and response\<close>

text \<open>
  \<^verbatim>\<open>req.session.oauth\<close> is absent or an object with the optional fields the
  controller uses; \<^verbatim>\<open>{}\<close> is the object with none of them.
\<close>

record oauth_ctx =
  returnTo :: "string option"
  state :: "string option"
  inviteCode :: "string option"

definition empty_oauth :: oauth_ctx where
  "empty_oauth = \<lparr>returnTo = None, state = None, inviteCode = None\<rparr>"

record session =
  oauth :: "oauth_ctx option"

record session_user =
  userUuid :: string

record request =
  session :: session
  user :: "session_user option"
  query :: "(string \<times> string) list"

record github_config =
  appName :: string
  redirectDomain :: string

record lightdash_config =
  siteUrl :: string
  github :: github_config

text \<open>
  A run of a handler: the status and headers set on the controller, the session as the
  handler leaves it, the calls made, and the exception thrown (\<open>None\<close> when the handler
  returns).
\<close>

record run =
  status :: "nat option"
  headers :: "string \<rightharpoonup> string"
  sess :: session
  calls :: "call list"
  thrown :: "error option"

definition start :: "request \<Rightarrow> run" where
  "start req =
     \<lparr>status = None, headers = Map.empty, sess = session req, calls = [], thrown = None\<rparr>"

definition setStatus :: "nat \<Rightarrow> run \<Rightarrow> run" where
  "setStatus n r = r\<lparr>status := Some n\<rparr>"

definition setHeader :: "string \<Rightarrow> string \<Rightarrow> run \<Rightarrow> run" where
  "setHeader k v r = r\<lparr>headers := (headers r)(k \<mapsto> v)\<rparr>"

definition throw :: "error \<Rightarrow> run \<Rightarrow> run" where
  "throw e r = r\<lparr>thrown := Some e\<rparr>"

definition called :: "call \<Rightarrow> run \<Rightarrow> run" where
  "called c r = r\<lparr>calls := calls r @ [c]\<rparr>"

definition set_oauth :: "oauth_ctx \<Rightarrow> run \<Rightarrow> run" where
  "set_oauth ctx r = r\<lparr>sess := (sess r)\<lparr>oauth := Some ctx\<rparr>\<rparr>"

subsection \<open>Initiation\<close>

text \<open>
  \<^verbatim>\<open>installGithubAppForOrganization\<close>. \<open>nanoid\<close> is the identifier the call
  \<^verbatim>\<open>nanoid()\<close> returns in this request. The statements run in the source's order:
  the return URL is built first (and throws on an unusable site URL), the session context
  is replaced and filled field by field, and \<^verbatim>\<open>req.user!.userUuid\<close> is read last.
\<close>

definition installGithubAppForOrganization ::
  "platform \<Rightarrow> lightdash_config \<Rightarrow> string \<Rightarrow> request \<Rightarrow> run" where
  "installGithubAppForOrganization P cfg nanoid req =
     (case new_URL_base_href P ''/generalSettings/integrations'' (siteUrl cfg) of
        None \<Rightarrow> throw (TypeError ''Invalid URL'') (start req)
      | Some href \<Rightarrow>
          (let randomID = replace ''_'' '''' nanoid;
               subdomain = redirectDomain (github cfg);
               st = subdomain @ ''_'' @ randomID;
               githubAppName = appName (github cfg);
               r = set_oauth \<lparr>returnTo = Some href, state = Some st, inviteCode = None\<rparr>
                     (start req)
           in case user req of
                None \<Rightarrow> throw (TypeError ''Cannot read properties of undefined'') r
              | Some u \<Rightarrow>
                  setHeader ''Location''
                    (''https://github.com/apps/'' @ githubAppName @ ''/installations/new?state='' @ st)
                    (setStatus 302
                      (set_oauth
                        \<lparr>returnTo = Some href, state = Some st, inviteCode = Some (userUuid u)\<rparr>
                        r))))"

subsection \<open>The callback\<close>

text \<open>\<^verbatim>\<open>req.session.oauth?.state\<close> and \<^verbatim>\<open>req.session.oauth?.returnTo\<close>.\<close>

definition pending_state :: "session \<Rightarrow> string option" where
  "pending_state s = (case oauth s of None \<Rightarrow> None | Some ctx \<Rightarrow> state ctx)"

definition pending_returnTo :: "session \<Rightarrow> string option" where
  "pending_returnTo s = (case oauth s of None \<Rightarrow> None | Some ctx \<Rightarrow> returnTo ctx)"

text \<open>
  The body of \<^verbatim>\<open>if (code) { ... }\<close>, entered with a non-empty code: the exchange,
  the refresh-token check, the installation list and the search in it, the upsert, and
  the completion. An exception of any step ends the handler there.
\<close>

definition or_else :: "string option \<Rightarrow> string \<Rightarrow> string" where
  "or_else v d = (case v of None \<Rightarrow> d | Some s \<Rightarrow> if s = [] then d else s)"

definition link_installation :: "platform \<Rightarrow> string \<Rightarrow> string \<Rightarrow> string \<Rightarrow> run \<Rightarrow> run" where
  "link_installation P userUuid' installation_id c r =
     (let r1 = called (CreateToken c) r in
      case createToken P c of
        Inl e \<Rightarrow> throw e r1
      | Inr userToServerToken \<Rightarrow>
          (case refreshToken userToServerToken of
             None \<Rightarrow> throw (ForbiddenError ''Invalid authentication token'') r1
           | Some rt \<Rightarrow>
               (let tok = token userToServerToken;
                    r2 = called (ListInstallations tok) r1
                in case listInstallationsForAuthenticatedUser P tok of
                     Inl e \<Rightarrow> throw e r2
                   | Inr installations \<Rightarrow>
                       (case find (\<lambda>i. number_to_string P (inst_id i) = installation_id)
                               installations of
                          None \<Rightarrow> throw (Error ''Invalid installation id'') r2
                        | Some installation \<Rightarrow>
                            (let r3 = called (UpsertInstallation userUuid' installation_id tok rt) r2
                             in case upsertInstallation P userUuid' installation_id tok rt of
                                  Some e \<Rightarrow> throw e r3
                                | None \<Rightarrow>
                                    (case new_URL_href P
                                            (or_else (pending_returnTo (sess r3)) ''/'') of
                                       None \<Rightarrow> throw (TypeError ''Invalid URL'') r3
                                     | Some href \<Rightarrow>
                                         setHeader ''Location'' href
                                           (setStatus 302 (set_oauth empty_oauth r3))))))))"

text \<open>
  \<^verbatim>\<open>githubOauthCallback\<close>, with the query parameters \<^verbatim>\<open>code\<close>,
  \<^verbatim>\<open>state\<close>, \<^verbatim>\<open>installation_id\<close> and \<^verbatim>\<open>setup_action\<close>. The
  \<^verbatim>\<open>review\<close> branch sets the status and the handler goes on to the next
  statement. Each \<^verbatim>\<open>!v\<close> test and \<^verbatim>\<open>if (code)\<close> is written out on the
  two ways a parameter is falsy: absent, or the empty string.
\<close>

definition githubOauthCallback ::
  "platform \<Rightarrow> request \<Rightarrow> string option \<Rightarrow> string option \<Rightarrow> string option \<Rightarrow> string option \<Rightarrow> run"
  where
  "githubOauthCallback P req code qstate installation_id setup_action =
     (if falsy qstate \<or> qstate \<noteq> pending_state (session req)
      then throw (Error ''State does not match'') (setStatus 400 (start req))
      else
        (let r = (if setup_action = Some ''review'' then setStatus 200 (start req) else start req);
             no_user = throw (Error ''User uuid not provided'') (setStatus 400 r);
             no_installation = throw (Error ''Installation id not provided'') (setStatus 400 r)
         in case oauth (session req) of
              None \<Rightarrow> throw (TypeError ''Cannot read properties of undefined'') r
            | Some ctx \<Rightarrow>
                (case inviteCode ctx of
                   None \<Rightarrow> no_user
                 | Some userUuid' \<Rightarrow>
                     if userUuid' = [] then no_user
                     else
                       (case installation_id of
                          None \<Rightarrow> no_installation
                        | Some iid \<Rightarrow>
                            if iid = [] then no_installation
                            else
                              (case code of
                                 None \<Rightarrow> r
                               | Some c \<Rightarrow>
                                   if c = [] then r
                                   else link_installation P userUuid' iid c r)))))"

subsection \<open>An example deployment\<close>

text \<open>
  The specification's example: a pending context with state \<open>eu_AbC123\<close>, a provider
  that exchanges \<open>codeX\<close> for the token \<open>T\<close> with refresh token \<open>R\<close> (and
  \<open>codeY\<close> for a token with no refresh token) and lists the installations 54 and 55 for
  \<open>T\<close>, and a store whose upsert resolves. The URL parser of the example serialises an
  input that has a scheme as it stands.
\<close>

definition example_platform :: platform where
  "example_platform =
     \<lparr>createToken = (\<lambda>c.
         if c = ''codeX'' then Inr \<lparr>token = ''T'', refreshToken = Some ''R''\<rparr>
         else if c = ''codeY'' then Inr \<lparr>token = ''T'', refreshToken = None\<rparr>
         else Inl (RequestError ''bad_verification_code'')),
       listInstallationsForAuthenticatedUser = (\<lambda>t.
         if t = ''T'' then Inr [\<lparr>inst_id = 54\<rparr>, \<lparr>inst_id = 55\<rparr>]
         else Inl (RequestError ''Bad credentials'')),
       upsertInstallation = (\<lambda>u i t rt. None),
       url_href = (\<lambda>s. Some s),
       url_resolve = (\<lambda>input base. Some (base @ input)),
       number_format = (\<lambda>n. ''1e+21'')\<rparr>"

definition example_ctx :: oauth_ctx where
  "example_ctx =
     \<lparr>returnTo = Some ''https://eu.example.com/generalSettings/integrations'',
       state = Some ''eu_AbC123'', inviteCode = Some ''user-1''\<rparr>"

definition example_request :: request where
  "example_request =
     \<lparr>session = \<lparr>oauth = Some example_ctx\<rparr>, user = Some \<lparr>userUuid = ''user-1''\<rparr>,
       query = []\<rparr>"

definition example_config :: lightdash_config where
  "example_config =
     \<lparr>siteUrl = ''https://eu.example.com'',
       github = \<lparr>appName = ''lightdash-app'', redirectDomain = ''eu''\<rparr>\<rparr>"

section \<open>Properties of the callback\<close>

lemmas run_defs = start_def setStatus_def setHeader_def throw_def called_def set_oauth_def

lemmas callback_defs =
  githubOauthCallback_def link_installation_def falsy_def pending_state_def
  pending_returnTo_def or_else_def run_defs Let_def

lemmas url_defs =
  new_URL_href_def has_scheme_def url_trim_def c0_or_space_def tab_or_newline_def
  ascii_alpha_def ascii_digit_def

lemmas example_defs = example_platform_def example_ctx_def example_request_def

lemma number_to_string_54: "number_to_string P 54 = ''54''"
  by (simp add: number_to_string_def digits.simps digit_def)

lemma number_to_string_55: "number_to_string P 55 = ''55''"
  by (simp add: number_to_string_def digits.simps digit_def)

text \<open>The example callback of the specification, and the same callback claiming installation 56.\<close>

lemma example_linked:
  "githubOauthCallback example_platform example_request
     (Some ''codeX'') (Some ''eu_AbC123'') (Some ''55'') None
   = \<lparr>status = Some 302,
      headers = [''Location'' \<mapsto> ''https://eu.example.com/generalSettings/integrations''],
      sess = \<lparr>oauth = Some empty_oauth\<rparr>,
      calls = [CreateToken ''codeX'', ListInstallations ''T'',
               UpsertInstallation ''user-1'' ''55'' ''T'' ''R''],
      thrown = None\<rparr>"
  by (simp add: callback_defs example_defs url_defs number_to_string_54 number_to_string_55)

lemma example_unlisted:
  "githubOauthCallback example_platform example_request
     (Some ''codeX'') (Some ''eu_AbC123'') (Some ''56'') None
   = \<lparr>status = None, headers = Map.empty,
      sess = \<lparr>oauth = Some example_ctx\<rparr>,
      calls = [CreateToken ''codeX'', ListInstallations ''T''],
      thrown = Some (Error ''Invalid installation id'')\<rparr>"
  by (simp add: callback_defs example_defs url_defs number_to_string_54 number_to_string_55)

lemma example_no_refresh_token:
  "githubOauthCallback example_platform example_request
     (Some ''codeY'') (Some ''eu_AbC123'') (Some ''55'') None
   = \<lparr>status = None, headers = Map.empty,
      sess = \<lparr>oauth = Some example_ctx\<rparr>,
      calls = [CreateToken ''codeY''],
      thrown = Some (ForbiddenError ''Invalid authentication token'')\<rparr>"
  by (simp add: callback_defs example_defs)

text \<open>The constructor throws on the root path and on the empty string: neither has a scheme.\<close>

lemma new_URL_root_throws: "new_URL_href P ''/'' = None"
  by (simp add: url_defs)

lemma new_URL_empty_throws: "new_URL_href P [] = None"
  by (simp add: url_defs)

text \<open>
  A run in which every step through the upsert succeeds: what is left is the completion,
  which depends on the URL built from the stored return target.
\<close>

lemma callback_after_commit:
  assumes "oauth (session req) = Some ctx" and "state ctx = Some st" and "st \<noteq> []"
    and "inviteCode ctx = Some uid" and "uid \<noteq> []" and "iid \<noteq> []" and "c \<noteq> []"
    and "createToken P c = Inr auth" and "refreshToken auth = Some rt"
    and "listInstallationsForAuthenticatedUser P (token auth) = Inr installations"
    and "find (\<lambda>i. number_to_string P (inst_id i) = iid) installations = Some inst"
    and "upsertInstallation P uid iid (token auth) rt = None"
  shows "githubOauthCallback P req (Some c) (Some st) (Some iid) setup_action =
     (case new_URL_href P (or_else (returnTo ctx) ''/'') of
        None \<Rightarrow>
          \<lparr>status = (if setup_action = Some ''review'' then Some 200 else None),
            headers = Map.empty, sess = session req,
            calls = [CreateToken c, ListInstallations (token auth),
                     UpsertInstallation uid iid (token auth) rt],
            thrown = Some (TypeError ''Invalid URL'')\<rparr>
      | Some href \<Rightarrow>
          \<lparr>status = Some 302, headers = [''Location'' \<mapsto> href],
            sess = (session req)\<lparr>oauth := Some empty_oauth\<rparr>,
            calls = [CreateToken c, ListInstallations (token auth),
                     UpsertInstallation uid iid (token auth) rt],
            thrown = None\<rparr>)"
  using assms
  by (simp add: githubOauthCallback_def link_installation_def falsy_def pending_state_def
        pending_returnTo_def run_defs Let_def split: option.splits)

text \<open>The redirect of a completed run is the \<^verbatim>\<open>href\<close> of the stored return target.\<close>

lemma redirect_of_completion:
  assumes "oauth (session req) = Some ctx" and "returnTo ctx = Some h"
    and "status (githubOauthCallback P req code qstate installation_id setup_action) = Some 302"
  shows "headers (githubOauthCallback P req code qstate installation_id setup_action) ''Location''
           = new_URL_href P h"
proof (cases "h = []")
  case True
  then have "or_else (returnTo ctx) ''/'' = ''/''"
    using assms(2) by (simp add: or_else_def)
  then have "new_URL_href P (or_else (pending_returnTo (session req)) ''/'') = None"
    using assms(1) by (simp add: pending_returnTo_def new_URL_root_throws)
  then show ?thesis
    using assms(3)
    by (auto simp: githubOauthCallback_def link_installation_def run_defs Let_def
             split: option.splits sum.splits if_splits)
next
  case False
  then have "or_else (pending_returnTo (session req)) ''/'' = h"
    using assms(1,2) by (simp add: or_else_def pending_returnTo_def)
  then show ?thesis
    using assms(3)
    by (auto simp: githubOauthCallback_def link_installation_def run_defs Let_def
             split: option.splits sum.splits if_splits)
qed

text \<open>A review callback with no code, in the example.\<close>

lemma example_review:
  "githubOauthCallback example_platform example_request
     None (Some ''eu_AbC123'') (Some ''55'') (Some ''review'')
   = \<lparr>status = Some 200, headers = Map.empty,
      sess = \<lparr>oauth = Some example_ctx\<rparr>, calls = [], thrown = None\<rparr>"
  by (simp add: callback_defs example_defs)

text \<open>
  Every call to \<^verbatim>\<open>upsertInstallation\<close> stores the installation id of the query,
  and that id is the id of an installation the provider listed for the stored token.
\<close>

lemma upsert_only_after_verification:
  assumes "UpsertInstallation u i t rt
             \<in> set (calls (githubOauthCallback P req code qstate installation_id setup_action))"
  shows "installation_id = Some i
       \<and> (\<exists>installations inst.
             listInstallationsForAuthenticatedUser P t = Inr installations
           \<and> inst \<in> set installations \<and> number_to_string P (inst_id inst) = i)"
  using assms
  by (auto simp: githubOauthCallback_def link_installation_def run_defs Let_def find_Some_iff
           split: option.splits sum.splits if_splits) (metis nth_mem)+

text \<open>
  C1. Take a callback whose state matches the session's pending state, with a user id in
  the session context, an installation id and a code, whose code the provider exchanges
  for a token with a refresh token, and for whose token the provider returns a list of
  installations. If no installation of that list has an id that, written as a string, equals
  the claimed \<^verbatim>\<open>installation_id\<close>, the handler ends with the error \<open>Invalid
  installation id\<close>: its calls are the exchange and the listing and nothing else, so
  \<^verbatim>\<open>upsertInstallation\<close> is never called, no redirect is answered, and the
  session is as it was.
\<close>

theorem callback_rejects_unlisted_installation:
  assumes "oauth (session req) = Some ctx" and "\<not> falsy qstate" and "qstate = state ctx"
    and "inviteCode ctx = Some uid" and "uid \<noteq> []" and "iid \<noteq> []" and "c \<noteq> []"
    and "createToken P c = Inr auth" and "refreshToken auth = Some rt"
    and "listInstallationsForAuthenticatedUser P (token auth) = Inr installations"
    and "\<forall>i \<in> set installations. number_to_string P (inst_id i) \<noteq> iid"
  shows "thrown (githubOauthCallback P req (Some c) qstate (Some iid) setup_action)
           = Some (Error ''Invalid installation id'')
       \<and> calls (githubOauthCallback P req (Some c) qstate (Some iid) setup_action)
           = [CreateToken c, ListInstallations (token auth)]
       \<and> (\<forall>u i t r. UpsertInstallation u i t r
             \<notin> set (calls (githubOauthCallback P req (Some c) qstate (Some iid) setup_action)))
       \<and> status (githubOauthCallback P req (Some c) qstate (Some iid) setup_action)
           \<noteq> Some 302
       \<and> sess (githubOauthCallback P req (Some c) qstate (Some iid) setup_action)
           = session req"
proof -
  have not_found: "find (\<lambda>i. number_to_string P (inst_id i) = iid) installations = None"
    using assms(11) by (simp add: find_None_iff)
  have "githubOauthCallback P req (Some c) qstate (Some iid) setup_action =
      \<lparr>status = (if setup_action = Some ''review'' then Some 200 else None),
        headers = Map.empty, sess = session req,
        calls = [CreateToken c, ListInstallations (token auth)],
        thrown = Some (Error ''Invalid installation id'')\<rparr>"
    using assms(1-10) not_found
    by (simp add: githubOauthCallback_def link_installation_def falsy_def pending_state_def
          run_defs Let_def)
  then show ?thesis by simp
qed

theorem callback_rejects_unlisted_installation_witness:
  "thrown (githubOauthCallback example_platform example_request
             (Some ''codeX'') (Some ''eu_AbC123'') (Some ''56'') None)
     = Some (Error ''Invalid installation id'')
   \<and> calls (githubOauthCallback example_platform example_request
             (Some ''codeX'') (Some ''eu_AbC123'') (Some ''56'') None)
     = [CreateToken ''codeX'', ListInstallations ''T'']
   \<and> (\<forall>u i t r. UpsertInstallation u i t r
         \<notin> set (calls (githubOauthCallback example_platform example_request
                          (Some ''codeX'') (Some ''eu_AbC123'') (Some ''56'') None)))
   \<and> status (githubOauthCallback example_platform example_request
             (Some ''codeX'') (Some ''eu_AbC123'') (Some ''56'') None)
     \<noteq> Some 302
   \<and> sess (githubOauthCallback example_platform example_request
             (Some ''codeX'') (Some ''eu_AbC123'') (Some ''56'') None)
     = session example_request"
proof -
  let ?auth = "\<lparr>token = ''T'', refreshToken = Some ''R''\<rparr>"
  have ctx: "oauth (session example_request) = Some example_ctx"
    by (simp add: example_request_def)
  have present: "\<not> falsy (Some ''eu_AbC123'')"
    by (simp add: falsy_def)
  have matches: "Some ''eu_AbC123'' = state example_ctx"
    by (simp add: example_ctx_def)
  have uid: "inviteCode example_ctx = Some ''user-1''"
    by (simp add: example_ctx_def)
  have exchange: "createToken example_platform ''codeX'' = Inr ?auth"
    by (simp add: example_platform_def)
  have refresh: "refreshToken ?auth = Some ''R''"
    by simp
  have listing: "listInstallationsForAuthenticatedUser example_platform (token ?auth)
      = Inr [\<lparr>inst_id = 54\<rparr>, \<lparr>inst_id = 55\<rparr>]"
    by (simp add: example_platform_def)
  have unlisted: "\<forall>i \<in> set [\<lparr>inst_id = 54\<rparr>, \<lparr>inst_id = 55\<rparr>].
      number_to_string example_platform (inst_id i) \<noteq> ''56''"
    by (simp add: number_to_string_54 number_to_string_55)
  from callback_rejects_unlisted_installation [OF ctx present matches uid _ _ _ exchange
      refresh listing unlisted, where setup_action = None]
  show ?thesis by simp
qed

text \<open>
  C2. A callback whose \<^verbatim>\<open>state\<close> parameter is absent, or differs from the
  session's pending state (an absent context has no pending state), is rejected with
  status 400 and the error \<open>State does not match\<close>; no call is made to any
  collaborator and the session is left as it was.
\<close>

theorem callback_rejects_state_mismatch:
  assumes "qstate = None \<or> qstate \<noteq> pending_state (session req)"
  shows "status (githubOauthCallback P req code qstate installation_id setup_action) = Some 400
       \<and> thrown (githubOauthCallback P req code qstate installation_id setup_action)
           = Some (Error ''State does not match'')
       \<and> calls (githubOauthCallback P req code qstate installation_id setup_action) = []
       \<and> sess (githubOauthCallback P req code qstate installation_id setup_action) = session req"
  using assms by (auto simp: githubOauthCallback_def falsy_def run_defs)

theorem callback_rejects_state_mismatch_witness:
  "status (githubOauthCallback example_platform example_request
             (Some ''codeX'') (Some ''eu_WRONG'') (Some ''55'') None) = Some 400
   \<and> thrown (githubOauthCallback example_platform example_request
             (Some ''codeX'') (Some ''eu_WRONG'') (Some ''55'') None)
       = Some (Error ''State does not match'')
   \<and> calls (githubOauthCallback example_platform example_request
             (Some ''codeX'') (Some ''eu_WRONG'') (Some ''55'') None) = []
   \<and> sess (githubOauthCallback example_platform example_request
             (Some ''codeX'') (Some ''eu_WRONG'') (Some ''55'') None)
       = \<lparr>oauth = Some example_ctx\<rparr>"
proof -
  have mismatch: "Some ''eu_WRONG'' = None
      \<or> Some ''eu_WRONG'' \<noteq> pending_state (session example_request)"
    by (simp add: pending_state_def example_request_def example_ctx_def)
  have "session example_request = \<lparr>oauth = Some example_ctx\<rparr>"
    by (simp add: example_request_def)
  with callback_rejects_state_mismatch [OF mismatch, of example_platform "Some ''codeX''"
      "Some ''55''" None]
  show ?thesis by simp
qed

text \<open>
  C3. A callback with a matching state and \<^verbatim>\<open>setup_action = review\<close> does not
  stop after setting status 200. In the example, with a code and an installation id it
  exchanges the code, lists the installations, stores the credential and redirects with
  302; with neither, it ends with status 400 and the error \<open>Installation id not
  provided\<close>.
\<close>

theorem review_callback_goes_on:
  "githubOauthCallback example_platform example_request
     (Some ''codeX'') (Some ''eu_AbC123'') (Some ''55'') (Some ''review'')
   = \<lparr>status = Some 302,
      headers = [''Location'' \<mapsto> ''https://eu.example.com/generalSettings/integrations''],
      sess = \<lparr>oauth = Some empty_oauth\<rparr>,
      calls = [CreateToken ''codeX'', ListInstallations ''T'',
               UpsertInstallation ''user-1'' ''55'' ''T'' ''R''],
      thrown = None\<rparr>
  \<and> githubOauthCallback example_platform example_request
     None (Some ''eu_AbC123'') None (Some ''review'')
   = \<lparr>status = Some 400, headers = Map.empty,
      sess = \<lparr>oauth = Some example_ctx\<rparr>, calls = [],
      thrown = Some (Error ''Installation id not provided'')\<rparr>"
  by (simp add: callback_defs example_defs url_defs number_to_string_54 number_to_string_55)

text \<open>
  C4, as the claim states it, fails on the review branch: the example's review callback
  with no code returns with status 200 and the pending context is still the one the
  session held, not the empty one.
\<close>

theorem review_keeps_context_counterexample:
  "status (githubOauthCallback example_platform example_request
             None (Some ''eu_AbC123'') (Some ''55'') (Some ''review'')) = Some 200
   \<and> thrown (githubOauthCallback example_platform example_request
             None (Some ''eu_AbC123'') (Some ''55'') (Some ''review'')) = None
   \<and> oauth (sess (githubOauthCallback example_platform example_request
             None (Some ''eu_AbC123'') (Some ''55'') (Some ''review''))) = Some example_ctx
   \<and> example_ctx \<noteq> empty_oauth"
  by (simp add: example_review example_ctx_def empty_oauth_def)

text \<open>
  C4, amended. The session's pending context is cleared by the callback on the
  full-success path and only after a commit, and is left untouched on state-validation
  failure. For every callback run: (a) when the state matches, the session context holds a
  user id, the query an installation id and a code, the exchange returns a refresh token,
  the provider's list for the token contains the installation id and the upsert resolves,
  then, for a callback that is not a review callback and a stored \<^verbatim>\<open>returnTo\<close>
  that the URL constructor accepts, the run stores the credential, answers 302 and leaves
  the empty context; (b) a run that changes the session at all leaves the empty context,
  and every one of those steps through the upsert has succeeded in it; (c) a run whose
  state is absent or does not match leaves the session as it was.
\<close>

theorem callback_clears_context_on_committed_success:
  "(\<forall>ctx st uid iid c auth rt installations inst target href.
      oauth (session req) = Some ctx \<and> qstate = Some st \<and> state ctx = Some st \<and> st \<noteq> []
      \<and> inviteCode ctx = Some uid \<and> uid \<noteq> []
      \<and> installation_id = Some iid \<and> iid \<noteq> [] \<and> code = Some c \<and> c \<noteq> []
      \<and> createToken P c = Inr auth \<and> refreshToken auth = Some rt
      \<and> listInstallationsForAuthenticatedUser P (token auth) = Inr installations
      \<and> find (\<lambda>i. number_to_string P (inst_id i) = iid) installations = Some inst
      \<and> upsertInstallation P uid iid (token auth) rt = None
      \<and> setup_action \<noteq> Some ''review''
      \<and> returnTo ctx = Some target \<and> target \<noteq> [] \<and> new_URL_href P target = Some href
      \<longrightarrow> sess (githubOauthCallback P req code qstate installation_id setup_action)
            = (session req)\<lparr>oauth := Some empty_oauth\<rparr>
        \<and> status (githubOauthCallback P req code qstate installation_id setup_action)
            = Some 302
        \<and> thrown (githubOauthCallback P req code qstate installation_id setup_action) = None
        \<and> calls (githubOauthCallback P req code qstate installation_id setup_action)
            = [CreateToken c, ListInstallations (token auth),
               UpsertInstallation uid iid (token auth) rt])
   \<and> (sess (githubOauthCallback P req code qstate installation_id setup_action) \<noteq> session req
      \<longrightarrow> sess (githubOauthCallback P req code qstate installation_id setup_action)
            = (session req)\<lparr>oauth := Some empty_oauth\<rparr>
        \<and> (\<exists>ctx st uid iid c auth rt installations inst.
              oauth (session req) = Some ctx \<and> qstate = Some st \<and> state ctx = Some st
            \<and> st \<noteq> [] \<and> inviteCode ctx = Some uid \<and> uid \<noteq> []
            \<and> installation_id = Some iid \<and> iid \<noteq> [] \<and> code = Some c \<and> c \<noteq> []
            \<and> createToken P c = Inr auth \<and> refreshToken auth = Some rt
            \<and> listInstallationsForAuthenticatedUser P (token auth) = Inr installations
            \<and> find (\<lambda>i. number_to_string P (inst_id i) = iid) installations = Some inst
            \<and> upsertInstallation P uid iid (token auth) rt = None))
   \<and> (falsy qstate \<or> qstate \<noteq> pending_state (session req)
      \<longrightarrow> sess (githubOauthCallback P req code qstate installation_id setup_action)
            = session req)"
proof (intro conjI allI impI)
  fix ctx st uid iid c auth rt installations inst target href
  assume success:
    "oauth (session req) = Some ctx \<and> qstate = Some st \<and> state ctx = Some st \<and> st \<noteq> []
      \<and> inviteCode ctx = Some uid \<and> uid \<noteq> []
      \<and> installation_id = Some iid \<and> iid \<noteq> [] \<and> code = Some c \<and> c \<noteq> []
      \<and> createToken P c = Inr auth \<and> refreshToken auth = Some rt
      \<and> listInstallationsForAuthenticatedUser P (token auth) = Inr installations
      \<and> find (\<lambda>i. number_to_string P (inst_id i) = iid) installations = Some inst
      \<and> upsertInstallation P uid iid (token auth) rt = None
      \<and> setup_action \<noteq> Some ''review''
      \<and> returnTo ctx = Some target \<and> target \<noteq> [] \<and> new_URL_href P target = Some href"
  have run: "githubOauthCallback P req code qstate installation_id setup_action =
      \<lparr>status = Some 302, headers = [''Location'' \<mapsto> href],
        sess = (session req)\<lparr>oauth := Some empty_oauth\<rparr>,
        calls = [CreateToken c, ListInstallations (token auth),
                 UpsertInstallation uid iid (token auth) rt],
        thrown = None\<rparr>"
    using success callback_after_commit [of req ctx st uid iid c P auth rt installations inst
        setup_action]
    by (simp add: or_else_def)
  show "sess (githubOauthCallback P req code qstate installation_id setup_action)
      = (session req)\<lparr>oauth := Some empty_oauth\<rparr>"
    by (simp add: run)
  show "status (githubOauthCallback P req code qstate installation_id setup_action) = Some 302"
    by (simp add: run)
  show "thrown (githubOauthCallback P req code qstate installation_id setup_action) = None"
    by (simp add: run)
  show "calls (githubOauthCallback P req code qstate installation_id setup_action)
      = [CreateToken c, ListInstallations (token auth),
         UpsertInstallation uid iid (token auth) rt]"
    by (simp add: run)
next
  assume "sess (githubOauthCallback P req code qstate installation_id setup_action)
      \<noteq> session req"
  then show "sess (githubOauthCallback P req code qstate installation_id setup_action)
      = (session req)\<lparr>oauth := Some empty_oauth\<rparr>"
    by (auto simp: githubOauthCallback_def link_installation_def run_defs Let_def
             split: option.splits sum.splits if_splits)
next
  assume "sess (githubOauthCallback P req code qstate installation_id setup_action)
      \<noteq> session req"
  then show "\<exists>ctx st uid iid c auth rt installations inst.
              oauth (session req) = Some ctx \<and> qstate = Some st \<and> state ctx = Some st
            \<and> st \<noteq> [] \<and> inviteCode ctx = Some uid \<and> uid \<noteq> []
            \<and> installation_id = Some iid \<and> iid \<noteq> [] \<and> code = Some c \<and> c \<noteq> []
            \<and> createToken P c = Inr auth \<and> refreshToken auth = Some rt
            \<and> listInstallationsForAuthenticatedUser P (token auth) = Inr installations
            \<and> find (\<lambda>i. number_to_string P (inst_id i) = iid) installations = Some inst
            \<and> upsertInstallation P uid iid (token auth) rt = None"
    by (auto simp: githubOauthCallback_def link_installation_def run_defs Let_def falsy_def
             pending_state_def
             split: option.splits sum.splits if_splits)
next
  assume "falsy qstate \<or> qstate \<noteq> pending_state (session req)"
  then show "sess (githubOauthCallback P req code qstate installation_id setup_action)
      = session req"
    by (auto simp: githubOauthCallback_def run_defs)
qed

theorem callback_clears_context_on_committed_success_witness:
  "sess (githubOauthCallback example_platform example_request
           (Some ''codeX'') (Some ''eu_AbC123'') (Some ''55'') None)
     = \<lparr>oauth = Some empty_oauth\<rparr>
   \<and> calls (githubOauthCallback example_platform example_request
           (Some ''codeX'') (Some ''eu_AbC123'') (Some ''55'') None)
     = [CreateToken ''codeX'', ListInstallations ''T'',
        UpsertInstallation ''user-1'' ''55'' ''T'' ''R'']
   \<and> sess (githubOauthCallback example_platform example_request
           None (Some ''eu_AbC123'') (Some ''55'') (Some ''review''))
     = \<lparr>oauth = Some example_ctx\<rparr>
   \<and> sess (githubOauthCallback example_platform example_request
           (Some ''codeX'') (Some ''eu_WRONG'') (Some ''55'') None)
     = \<lparr>oauth = Some example_ctx\<rparr>"
proof -
  let ?auth = "\<lparr>token = ''T'', refreshToken = Some ''R''\<rparr>"
  let ?target = "''https://eu.example.com/generalSettings/integrations''"
  have before: "session example_request = \<lparr>oauth = Some example_ctx\<rparr>"
    by (simp add: example_request_def)
  have success:
    "oauth (session example_request) = Some example_ctx
      \<and> Some ''eu_AbC123'' = Some ''eu_AbC123'' \<and> state example_ctx = Some ''eu_AbC123''
      \<and> ''eu_AbC123'' \<noteq> []
      \<and> inviteCode example_ctx = Some ''user-1'' \<and> ''user-1'' \<noteq> []
      \<and> Some ''55'' = Some ''55'' \<and> ''55'' \<noteq> [] \<and> Some ''codeX'' = Some ''codeX''
      \<and> ''codeX'' \<noteq> []
      \<and> createToken example_platform ''codeX'' = Inr ?auth \<and> refreshToken ?auth = Some ''R''
      \<and> listInstallationsForAuthenticatedUser example_platform (token ?auth)
          = Inr [\<lparr>inst_id = 54\<rparr>, \<lparr>inst_id = 55\<rparr>]
      \<and> find (\<lambda>i. number_to_string example_platform (inst_id i) = ''55'')
          [\<lparr>inst_id = 54\<rparr>, \<lparr>inst_id = 55\<rparr>] = Some \<lparr>inst_id = 55\<rparr>
      \<and> upsertInstallation example_platform ''user-1'' ''55'' (token ?auth) ''R'' = None
      \<and> None \<noteq> Some ''review''
      \<and> returnTo example_ctx = Some ?target \<and> ?target \<noteq> []
      \<and> new_URL_href example_platform ?target = Some ?target"
    by (simp add: example_defs url_defs number_to_string_54 number_to_string_55)
  note linked = callback_clears_context_on_committed_success [of example_request
      "Some ''eu_AbC123''" "Some ''55''" "Some ''codeX''" example_platform None]
  from linked success
  have cleared: "sess (githubOauthCallback example_platform example_request
        (Some ''codeX'') (Some ''eu_AbC123'') (Some ''55'') None)
      = (session example_request)\<lparr>oauth := Some empty_oauth\<rparr>
    \<and> calls (githubOauthCallback example_platform example_request
        (Some ''codeX'') (Some ''eu_AbC123'') (Some ''55'') None)
      = [CreateToken ''codeX'', ListInstallations (token ?auth),
         UpsertInstallation ''user-1'' ''55'' (token ?auth) ''R'']"
    by blast
  note review = callback_clears_context_on_committed_success [of example_request
      "Some ''eu_AbC123''" "Some ''55''" None example_platform "Some ''review''"]
  have kept: "sess (githubOauthCallback example_platform example_request
        None (Some ''eu_AbC123'') (Some ''55'') (Some ''review'')) = session example_request"
  proof (rule ccontr)
    assume "sess (githubOauthCallback example_platform example_request
        None (Some ''eu_AbC123'') (Some ''55'') (Some ''review'')) \<noteq> session example_request"
    with review have "\<exists>c. (None :: string option) = Some c"
      by blast
    then show False by simp
  qed
  have mismatch: "falsy (Some ''eu_WRONG'')
      \<or> Some ''eu_WRONG'' \<noteq> pending_state (session example_request)"
    by (simp add: pending_state_def example_request_def example_ctx_def)
  note wrong = callback_clears_context_on_committed_success [of example_request
      "Some ''eu_WRONG''" "Some ''55''" "Some ''codeX''" example_platform None]
  from wrong mismatch
  have rejected: "sess (githubOauthCallback example_platform example_request
        (Some ''codeX'') (Some ''eu_WRONG'') (Some ''55'') None) = session example_request"
    by blast
  from cleared kept rejected before show ?thesis by simp
qed

text \<open>
  C6. In a run that exchanges a code, if the exchange succeeds and the authentication it
  returns has no refresh token, the handler ends with the \<^verbatim>\<open>ForbiddenError\<close>
  \<open>Invalid authentication token\<close>; no call to \<^verbatim>\<open>upsertInstallation\<close> is
  made (the one call that stores a credential takes both tokens), and the session is as it
  was.
\<close>

theorem callback_rejects_missing_refresh_token:
  assumes "CreateToken c
             \<in> set (calls (githubOauthCallback P req code qstate installation_id setup_action))"
    and "createToken P c = Inr auth"
    and "refreshToken auth = None"
  shows "thrown (githubOauthCallback P req code qstate installation_id setup_action)
           = Some (ForbiddenError ''Invalid authentication token'')
       \<and> (\<forall>u i t rt. UpsertInstallation u i t rt
             \<notin> set (calls (githubOauthCallback P req code qstate installation_id setup_action)))
       \<and> sess (githubOauthCallback P req code qstate installation_id setup_action) = session req"
  using assms
  by (auto simp: githubOauthCallback_def link_installation_def run_defs Let_def
           split: option.splits sum.splits if_splits)

theorem callback_rejects_missing_refresh_token_witness:
  "thrown (githubOauthCallback example_platform example_request
             (Some ''codeY'') (Some ''eu_AbC123'') (Some ''55'') None)
     = Some (ForbiddenError ''Invalid authentication token'')
   \<and> (\<forall>u i t rt. UpsertInstallation u i t rt
         \<notin> set (calls (githubOauthCallback example_platform example_request
                          (Some ''codeY'') (Some ''eu_AbC123'') (Some ''55'') None)))
   \<and> sess (githubOauthCallback example_platform example_request
             (Some ''codeY'') (Some ''eu_AbC123'') (Some ''55'') None)
     = session example_request"
proof -
  have exchanged: "CreateToken ''codeY''
      \<in> set (calls (githubOauthCallback example_platform example_request
                       (Some ''codeY'') (Some ''eu_AbC123'') (Some ''55'') None))"
    by (simp add: example_no_refresh_token)
  have answer: "createToken example_platform ''codeY''
      = Inr \<lparr>token = ''T'', refreshToken = None\<rparr>"
    by (simp add: example_platform_def)
  have absent: "refreshToken \<lparr>token = ''T'', refreshToken = None\<rparr> = None"
    by simp
  show ?thesis
    by (rule callback_rejects_missing_refresh_token [OF exchanged answer absent])
qed

text \<open>
  C7. When every step through the upsert succeeds and the stored \<^verbatim>\<open>returnTo\<close>
  is absent (or empty), the fallback \<^verbatim>\<open>new URL('/')\<close> throws: the handler ends
  with a \<^verbatim>\<open>TypeError\<close> after the credential was stored, the status is not 302,
  no \<open>Location\<close> header is set and the pending context is not cleared.
\<close>

theorem completion_fallback_throws:
  assumes "oauth (session req) = Some ctx" and "state ctx = Some st" and "st \<noteq> []"
    and "inviteCode ctx = Some uid" and "uid \<noteq> []" and "iid \<noteq> []" and "c \<noteq> []"
    and "createToken P c = Inr auth" and "refreshToken auth = Some rt"
    and "listInstallationsForAuthenticatedUser P (token auth) = Inr installations"
    and "find (\<lambda>i. number_to_string P (inst_id i) = iid) installations = Some inst"
    and "upsertInstallation P uid iid (token auth) rt = None"
    and "falsy (returnTo ctx)"
  shows "thrown (githubOauthCallback P req (Some c) (Some st) (Some iid) setup_action)
           = Some (TypeError ''Invalid URL'')
       \<and> status (githubOauthCallback P req (Some c) (Some st) (Some iid) setup_action)
           \<noteq> Some 302
       \<and> headers (githubOauthCallback P req (Some c) (Some st) (Some iid) setup_action)
           ''Location'' = None
       \<and> sess (githubOauthCallback P req (Some c) (Some st) (Some iid) setup_action)
           = session req
       \<and> calls (githubOauthCallback P req (Some c) (Some st) (Some iid) setup_action)
           = [CreateToken c, ListInstallations (token auth),
              UpsertInstallation uid iid (token auth) rt]"
proof -
  have "or_else (returnTo ctx) ''/'' = ''/''"
    using assms(13) by (auto simp: or_else_def falsy_def split: option.splits)
  then have "new_URL_href P (or_else (returnTo ctx) ''/'') = None"
    by (simp add: new_URL_root_throws)
  with callback_after_commit [OF assms(1-12), of setup_action] show ?thesis
    by simp
qed

theorem completion_fallback_throws_witness:
  "thrown (githubOauthCallback example_platform
             (example_request\<lparr>session := \<lparr>oauth = Some (example_ctx\<lparr>returnTo := None\<rparr>)\<rparr>\<rparr>)
             (Some ''codeX'') (Some ''eu_AbC123'') (Some ''55'') None)
     = Some (TypeError ''Invalid URL'')
   \<and> status (githubOauthCallback example_platform
             (example_request\<lparr>session := \<lparr>oauth = Some (example_ctx\<lparr>returnTo := None\<rparr>)\<rparr>\<rparr>)
             (Some ''codeX'') (Some ''eu_AbC123'') (Some ''55'') None)
     \<noteq> Some 302
   \<and> sess (githubOauthCallback example_platform
             (example_request\<lparr>session := \<lparr>oauth = Some (example_ctx\<lparr>returnTo := None\<rparr>)\<rparr>\<rparr>)
             (Some ''codeX'') (Some ''eu_AbC123'') (Some ''55'') None)
     = \<lparr>oauth = Some (example_ctx\<lparr>returnTo := None\<rparr>)\<rparr>
   \<and> calls (githubOauthCallback example_platform
             (example_request\<lparr>session := \<lparr>oauth = Some (example_ctx\<lparr>returnTo := None\<rparr>)\<rparr>\<rparr>)
             (Some ''codeX'') (Some ''eu_AbC123'') (Some ''55'') None)
     = [CreateToken ''codeX'', ListInstallations ''T'',
        UpsertInstallation ''user-1'' ''55'' ''T'' ''R'']"
proof -
  let ?req = "example_request\<lparr>session := \<lparr>oauth = Some (example_ctx\<lparr>returnTo := None\<rparr>)\<rparr>\<rparr>"
  let ?auth = "\<lparr>token = ''T'', refreshToken = Some ''R''\<rparr>"
  have ctx: "oauth (session ?req) = Some (example_ctx\<lparr>returnTo := None\<rparr>)"
    by simp
  have st: "state (example_ctx\<lparr>returnTo := None\<rparr>) = Some ''eu_AbC123''"
    by (simp add: example_ctx_def)
  have uid: "inviteCode (example_ctx\<lparr>returnTo := None\<rparr>) = Some ''user-1''"
    by (simp add: example_ctx_def)
  have exchange: "createToken example_platform ''codeX'' = Inr ?auth"
    by (simp add: example_platform_def)
  have refresh: "refreshToken ?auth = Some ''R''"
    by simp
  have listing: "listInstallationsForAuthenticatedUser example_platform (token ?auth)
      = Inr [\<lparr>inst_id = 54\<rparr>, \<lparr>inst_id = 55\<rparr>]"
    by (simp add: example_platform_def)
  have found: "find (\<lambda>i. number_to_string example_platform (inst_id i) = ''55'')
      [\<lparr>inst_id = 54\<rparr>, \<lparr>inst_id = 55\<rparr>] = Some \<lparr>inst_id = 55\<rparr>"
    by (simp add: number_to_string_54 number_to_string_55)
  have stored: "upsertInstallation example_platform ''user-1'' ''55'' (token ?auth) ''R'' = None"
    by (simp add: example_platform_def)
  have absent: "falsy (returnTo (example_ctx\<lparr>returnTo := None\<rparr>))"
    by (simp add: falsy_def)
  from completion_fallback_throws [OF ctx st _ uid _ _ _ exchange refresh listing found stored
      absent, of None]
  show ?thesis by simp
qed

text \<open>
  C8. With a matching state, when the session context holds no user id (or an empty one),
  or the query has no \<^verbatim>\<open>installation_id\<close> (or an empty one), the callback is
  rejected with status 400 and one of the two input errors; no call is made to any
  collaborator and the session is left as it was.
\<close>

theorem callback_rejects_missing_input:
  assumes "oauth (session req) = Some ctx" and "\<not> falsy qstate" and "qstate = state ctx"
    and "falsy (inviteCode ctx) \<or> falsy installation_id"
  shows "status (githubOauthCallback P req code qstate installation_id setup_action) = Some 400
       \<and> thrown (githubOauthCallback P req code qstate installation_id setup_action)
           \<in> {Some (Error ''User uuid not provided''),
               Some (Error ''Installation id not provided'')}
       \<and> calls (githubOauthCallback P req code qstate installation_id setup_action) = []
       \<and> sess (githubOauthCallback P req code qstate installation_id setup_action) = session req"
  using assms
  by (auto simp: githubOauthCallback_def falsy_def pending_state_def run_defs Let_def
           split: option.splits)

theorem callback_rejects_missing_input_witness:
  "status (githubOauthCallback example_platform example_request
             (Some ''codeX'') (Some ''eu_AbC123'') None None) = Some 400
   \<and> thrown (githubOauthCallback example_platform example_request
             (Some ''codeX'') (Some ''eu_AbC123'') None None)
       \<in> {Some (Error ''User uuid not provided''),
           Some (Error ''Installation id not provided'')}
   \<and> calls (githubOauthCallback example_platform example_request
             (Some ''codeX'') (Some ''eu_AbC123'') None None) = []
   \<and> sess (githubOauthCallback example_platform example_request
             (Some ''codeX'') (Some ''eu_AbC123'') None None)
       = session example_request"
proof -
  have ctx: "oauth (session example_request) = Some example_ctx"
    by (simp add: example_request_def)
  have present: "\<not> falsy (Some ''eu_AbC123'')"
    by (simp add: falsy_def)
  have matches: "Some ''eu_AbC123'' = state example_ctx"
    by (simp add: example_ctx_def)
  have missing: "falsy (inviteCode example_ctx) \<or> falsy None"
    by (simp add: falsy_def)
  show ?thesis
    by (rule callback_rejects_missing_input [OF ctx present matches missing])
qed

text \<open>
  C9. With a matching state, a non-empty user id in the session context, a non-empty
  \<^verbatim>\<open>installation_id\<close>, a \<^verbatim>\<open>setup_action\<close> other than \<open>review\<close> and no
  \<^verbatim>\<open>code\<close> (or an empty one), the handler returns having done nothing: no status
  and no header is set, nothing is thrown, no call is made and the session is as it was.
\<close>

theorem callback_without_code_is_inert:
  assumes "oauth (session req) = Some ctx" and "\<not> falsy qstate" and "qstate = state ctx"
    and "\<not> falsy (inviteCode ctx)" and "\<not> falsy installation_id"
    and "setup_action \<noteq> Some ''review''" and "falsy code"
  shows "status (githubOauthCallback P req code qstate installation_id setup_action) = None
       \<and> headers (githubOauthCallback P req code qstate installation_id setup_action) = Map.empty
       \<and> thrown (githubOauthCallback P req code qstate installation_id setup_action) = None
       \<and> calls (githubOauthCallback P req code qstate installation_id setup_action) = []
       \<and> sess (githubOauthCallback P req code qstate installation_id setup_action) = session req"
  using assms
  by (auto simp: githubOauthCallback_def falsy_def pending_state_def run_defs Let_def
           split: option.splits)

theorem callback_without_code_is_inert_witness:
  "status (githubOauthCallback example_platform example_request
             None (Some ''eu_AbC123'') (Some ''55'') (Some ''install'')) = None
   \<and> headers (githubOauthCallback example_platform example_request
             None (Some ''eu_AbC123'') (Some ''55'') (Some ''install'')) = Map.empty
   \<and> thrown (githubOauthCallback example_platform example_request
             None (Some ''eu_AbC123'') (Some ''55'') (Some ''install'')) = None
   \<and> calls (githubOauthCallback example_platform example_request
             None (Some ''eu_AbC123'') (Some ''55'') (Some ''install'')) = []
   \<and> sess (githubOauthCallback example_platform example_request
             None (Some ''eu_AbC123'') (Some ''55'') (Some ''install''))
       = session example_request"
proof -
  have ctx: "oauth (session example_request) = Some example_ctx"
    by (simp add: example_request_def)
  have present: "\<not> falsy (Some ''eu_AbC123'')"
    by (simp add: falsy_def)
  have matches: "Some ''eu_AbC123'' = state example_ctx"
    by (simp add: example_ctx_def)
  have user: "\<not> falsy (inviteCode example_ctx)"
    by (simp add: falsy_def example_ctx_def)
  have installation: "\<not> falsy (Some ''55'')"
    by (simp add: falsy_def)
  have action: "Some ''install'' \<noteq> Some ''review''"
    by simp
  have no_code: "falsy None"
    by (simp add: falsy_def)
  show ?thesis
    by (rule callback_without_code_is_inert
          [OF ctx present matches user installation action no_code])
qed

section \<open>Properties of the initiation\<close>

text \<open>The run of an initiation whose return URL is built and whose user is present.\<close>

lemma install_run:
  assumes "new_URL_base_href P ''/generalSettings/integrations'' (siteUrl cfg) = Some h"
    and "user req = Some u"
  shows "installGithubAppForOrganization P cfg nanoid req =
     \<lparr>status = Some 302,
       headers = [''Location'' \<mapsto> ''https://github.com/apps/'' @ appName (github cfg)
                    @ ''/installations/new?state=''
                    @ redirectDomain (github cfg) @ ''_'' @ replace ''_'' '''' nanoid],
       sess = (session req)\<lparr>oauth := Some
                \<lparr>returnTo = Some h,
                  state = Some (redirectDomain (github cfg) @ ''_'' @ replace ''_'' '''' nanoid),
                  inviteCode = Some (userUuid u)\<rparr>\<rparr>,
       calls = [], thrown = None\<rparr>"
  using assms by (simp add: installGithubAppForOrganization_def run_defs Let_def)

text \<open>What \<^verbatim>\<open>replace\<close> with a one-character pattern and an empty replacement removes.\<close>

lemma replace_first_only:
  "count_list (replace [c] [] s) c = count_list s c - 1"
  by (induction s) auto

text \<open>
  C5. \<^verbatim>\<open>replace('_', '')\<close> removes the first separator only. For the identifier
  \<open>V1StGXR8_Z5jdHi6B_myT\<close>, which has two, the state stored by the initiation is
  \<open>eu_V1StGXR8Z5jdHi6B_myT\<close>: the random part still contains the separator.
\<close>

theorem state_token_keeps_second_separator:
  "pending_state (sess (installGithubAppForOrganization example_platform example_config
       ''V1StGXR8_Z5jdHi6B_myT'' example_request))
     = Some (''eu'' @ ''_'' @ ''V1StGXR8Z5jdHi6B_myT'')
   \<and> CHR ''_'' \<in> set (replace ''_'' '''' ''V1StGXR8_Z5jdHi6B_myT'')"
  by (simp add: installGithubAppForOrganization_def new_URL_base_href_def url_defs run_defs
        pending_state_def example_defs example_config_def Let_def)

text \<open>
  C10. When the return URL can be built from the configured site URL and the request has
  its user, the initiation leaves as the session's pending context exactly the three fresh
  fields: \<^verbatim>\<open>returnTo\<close> is the \<^verbatim>\<open>href\<close> of
  \<open>/generalSettings/integrations\<close> resolved against the site URL, whatever the session
  held before; the run does not depend on the request's query; and every later callback
  on that session that completes with 302 redirects to the \<^verbatim>\<open>href\<close> of the
  URL built from that stored target (the same page: an \<^verbatim>\<open>href\<close> parses to
  itself).
\<close>

theorem install_stores_fixed_return_target:
  assumes "new_URL_base_href P ''/generalSettings/integrations'' (siteUrl cfg) = Some h"
    and "user req = Some u"
  shows "sess (installGithubAppForOrganization P cfg nanoid req)
           = \<lparr>oauth = Some
                \<lparr>returnTo = Some h,
                  state = Some (redirectDomain (github cfg) @ ''_'' @ replace ''_'' '''' nanoid),
                  inviteCode = Some (userUuid u)\<rparr>\<rparr>
       \<and> installGithubAppForOrganization P cfg nanoid (req\<lparr>query := q\<rparr>)
           = installGithubAppForOrganization P cfg nanoid req
       \<and> (status (githubOauthCallback P
                    (req'\<lparr>session := sess (installGithubAppForOrganization P cfg nanoid req)\<rparr>)
                    code qstate installation_id setup_action) = Some 302
            \<longrightarrow> headers (githubOauthCallback P
                    (req'\<lparr>session := sess (installGithubAppForOrganization P cfg nanoid req)\<rparr>)
                    code qstate installation_id setup_action) ''Location''
                  = new_URL_href P h)"
proof -
  let ?ctx = "\<lparr>returnTo = Some h,
       state = Some (redirectDomain (github cfg) @ ''_'' @ replace ''_'' '''' nanoid),
       inviteCode = Some (userUuid u)\<rparr>"
  have stored: "sess (installGithubAppForOrganization P cfg nanoid req) = \<lparr>oauth = Some ?ctx\<rparr>"
    by (simp add: install_run [OF assms])
  have "user (req\<lparr>query := q\<rparr>) = Some u"
    using assms(2) by simp
  from install_run [OF assms(1) this]
  have frame: "installGithubAppForOrganization P cfg nanoid (req\<lparr>query := q\<rparr>)
      = installGithubAppForOrganization P cfg nanoid req"
    by (simp add: install_run [OF assms])
  have later: "status (githubOauthCallback P
                    (req'\<lparr>session := sess (installGithubAppForOrganization P cfg nanoid req)\<rparr>)
                    code qstate installation_id setup_action) = Some 302
            \<longrightarrow> headers (githubOauthCallback P
                    (req'\<lparr>session := sess (installGithubAppForOrganization P cfg nanoid req)\<rparr>)
                    code qstate installation_id setup_action) ''Location''
                  = new_URL_href P h"
  proof
    assume completed: "status (githubOauthCallback P
                    (req'\<lparr>session := sess (installGithubAppForOrganization P cfg nanoid req)\<rparr>)
                    code qstate installation_id setup_action) = Some 302"
    have ctx: "oauth (session (req'\<lparr>session := sess (installGithubAppForOrganization P cfg nanoid req)\<rparr>))
        = Some ?ctx"
      by (simp add: stored)
    have rt: "returnTo ?ctx = Some h" by simp
    show "headers (githubOauthCallback P
                    (req'\<lparr>session := sess (installGithubAppForOrganization P cfg nanoid req)\<rparr>)
                    code qstate installation_id setup_action) ''Location''
                  = new_URL_href P h"
      by (rule redirect_of_completion [OF ctx rt completed])
  qed
  from stored frame later show ?thesis by blast
qed

theorem install_stores_fixed_return_target_witness:
  "sess (installGithubAppForOrganization example_platform example_config
           ''V1StGXR8-Z5jdHi6B-myT'' example_request)
     = \<lparr>oauth = Some
          \<lparr>returnTo = Some ''https://eu.example.com/generalSettings/integrations'',
            state = Some ''eu_V1StGXR8-Z5jdHi6B-myT'',
            inviteCode = Some ''user-1''\<rparr>\<rparr>
   \<and> installGithubAppForOrganization example_platform example_config
        ''V1StGXR8-Z5jdHi6B-myT''
        (example_request\<lparr>query := [(''redirect'', ''https://elsewhere.example/'')]\<rparr>)
     = installGithubAppForOrganization example_platform example_config
         ''V1StGXR8-Z5jdHi6B-myT'' example_request
   \<and> headers (githubOauthCallback example_platform
        (example_request\<lparr>session := sess (installGithubAppForOrganization example_platform
            example_config ''V1StGXR8-Z5jdHi6B-myT'' example_request)\<rparr>)
        (Some ''codeX'') (Some ''eu_V1StGXR8-Z5jdHi6B-myT'') (Some ''55'') None) ''Location''
     = Some ''https://eu.example.com/generalSettings/integrations''"
proof -
  let ?h = "''https://eu.example.com/generalSettings/integrations''"
  let ?run = "installGithubAppForOrganization example_platform example_config
      ''V1StGXR8-Z5jdHi6B-myT'' example_request"
  have target: "new_URL_base_href example_platform ''/generalSettings/integrations''
      (siteUrl example_config) = Some ?h"
    by (simp add: new_URL_base_href_def url_defs example_platform_def example_config_def)
  have visitor: "user example_request = Some \<lparr>userUuid = ''user-1''\<rparr>"
    by (simp add: example_request_def)
  note fixed = install_stores_fixed_return_target [OF target visitor,
      where nanoid = "''V1StGXR8-Z5jdHi6B-myT''"
        and q = "[(''redirect'', ''https://elsewhere.example/'')]"
        and req' = example_request and code = "Some ''codeX''"
        and qstate = "Some ''eu_V1StGXR8-Z5jdHi6B-myT''"
        and installation_id = "Some ''55''" and setup_action = None]
  have stored: "sess ?run = \<lparr>oauth = Some
          \<lparr>returnTo = Some ?h, state = Some ''eu_V1StGXR8-Z5jdHi6B-myT'',
            inviteCode = Some ''user-1''\<rparr>\<rparr>"
    using fixed by (simp add: example_config_def)
  have completed: "status (githubOauthCallback example_platform
        (example_request\<lparr>session := sess ?run\<rparr>)
        (Some ''codeX'') (Some ''eu_V1StGXR8-Z5jdHi6B-myT'') (Some ''55'') None) = Some 302"
    unfolding stored
    by (simp add: callback_defs example_platform_def url_defs
          number_to_string_54 number_to_string_55)
  have href: "new_URL_href example_platform ?h = Some ?h"
    by (simp add: url_defs example_platform_def)
  from fixed stored completed href show ?thesis
    by simp
qed

end
